theory Spec2Isabelle
  imports Main
begin

section \<open>The options model of jsoneditoroptions.ts\<close>

text \<open>
  The source file declares a handful of types and one class, \<open>JsonEditorOptions\<close>, whose
  only executable code is a parameterless constructor that assigns fourteen fields.
  The class is modelled as a record and the constructor as the sequence of its assignments
  on the receiver. The type declarations are modelled as data (type expressions), so that
  what a declaration says can be looked up and compared.
\<close>

subsection \<open>Values held by the fields\<close>

text \<open>\<open>export type JsonEditorMode = 'tree' | 'view' | 'form' | 'text' | 'code' | 'preview'\<close>\<close>

datatype JsonEditorMode = ModeTree | ModeView | ModeForm | ModeText | ModeCode | ModePreview

text \<open>
  Objects, functions and DOM elements are held by reference: the options object stores
  them and never looks inside. A reference is an address; two references are the same
  value exactly when they are the same address.
\<close>

datatype reference = Ref nat

type_synonym js_object = reference
type_synonym callback = reference
type_synonym HTMLElement = reference

text \<open>
  The fields of type \<open>number\<close> are only stored; the two the constructor assigns hold the
  whole numbers 2 and 100. They are modelled as integers.
\<close>

type_synonym number = int

text \<open>\<open>timestampTag: boolean | ((args: JsonEditorNode) => boolean)\<close>\<close>

datatype timestampTag_value = TagBoolean bool | TagFunction callback

subsection \<open>The class\<close>

text \<open>
  One record field per \<open>public\<close> member, in the order of the source. No member has an
  initialiser, so a field that was never assigned reads \<open>undefined\<close>: that is \<open>None\<close>.
  Every member is public and writable: an assignment \<open>options.modes = ms\<close> made by the
  host is the record update \<open>options\<lparr>modes := Some ms\<rparr>\<close>.
\<close>

record JsonEditorOptions =
  ace :: "js_object option"
  ajv :: "js_object option"
  onChange :: "callback option"
  onChangeJSON :: "callback option"
  onChangeText :: "callback option"
  onClassName :: "callback option"
  onEditable :: "callback option"
  onError :: "callback option"
  onModeChange :: "callback option"
  onNodeName :: "callback option"
  onValidate :: "callback option"
  onValidationError :: "callback option"
  onCreateMenu :: "callback option"
  escapeUnicode :: "bool option"
  sortObjectKeys :: "bool option"
  history :: "bool option"
  mode :: "JsonEditorMode option"
  modes :: "JsonEditorMode list option"
  name :: "string option"
  schema :: "js_object option"
  schemaRefs :: "js_object option"
  search :: "bool option"
  indentation :: "number option"
  theme :: "number option"
  templates :: "js_object option"
  autocomplete :: "js_object option"
  mainMenuBar :: "bool option"
  navigationBar :: "bool option"
  statusBar :: "bool option"
  onTextSelectionChange :: "callback option"
  onSelectionChange :: "callback option"
  onEvent :: "callback option"
  colorPicker :: "bool option"
  onColorPicker :: "callback option"
  timestampTag :: "timestampTag_value option"
  timestampFormat :: "callback option"
  language :: "string option"
  languages :: "js_object option"
  modalAnchor :: "HTMLElement option"
  popupAnchor :: "HTMLElement option"
  enableSort :: "bool option"
  enableTransform :: "bool option"
  maxVisibleChilds :: "number option"
  createQuery :: "callback option"
  executeQuery :: "callback option"
  queryDescription :: "string option"
  expandAll :: "bool option"

text \<open>The receiver as \<open>new\<close> hands it to the constructor body: every field undefined.\<close>

definition uninitialised :: JsonEditorOptions where
  "uninitialised =
     \<lparr> ace = None, ajv = None, onChange = None, onChangeJSON = None, onChangeText = None,
       onClassName = None, onEditable = None, onError = None, onModeChange = None,
       onNodeName = None, onValidate = None, onValidationError = None, onCreateMenu = None,
       escapeUnicode = None, sortObjectKeys = None, history = None, mode = None,
       modes = None, name = None, schema = None, schemaRefs = None, search = None,
       indentation = None, theme = None, templates = None, autocomplete = None,
       mainMenuBar = None, navigationBar = None, statusBar = None,
       onTextSelectionChange = None, onSelectionChange = None, onEvent = None,
       colorPicker = None, onColorPicker = None, timestampTag = None,
       timestampFormat = None, language = None, languages = None, modalAnchor = None,
       popupAnchor = None, enableSort = None, enableTransform = None,
       maxVisibleChilds = None, createQuery = None, executeQuery = None,
       queryDescription = None, expandAll = None \<rparr>"

text \<open>
  The constructor body: fourteen assignments to \<open>this\<close>, in the order of the source.
  It has no parameter and reads nothing, neither a field nor a global; it has no
  \<open>throw\<close> and no branch.
\<close>

definition JsonEditorOptions_constructor :: "JsonEditorOptions \<Rightarrow> JsonEditorOptions" where
  "JsonEditorOptions_constructor this =
     this\<lparr> escapeUnicode := Some False,
           sortObjectKeys := Some False,
           history := Some True,
           mode := Some ModeTree,
           search := Some True,
           indentation := Some 2,
           mainMenuBar := Some True,
           navigationBar := Some True,
           statusBar := Some True,
           colorPicker := Some True,
           enableSort := Some True,
           enableTransform := Some True,
           maxVisibleChilds := Some 100,
           expandAll := Some False \<rparr>"

text \<open>\<open>new JsonEditorOptions()\<close>: the body run on a fresh receiver.\<close>

definition new_JsonEditorOptions :: JsonEditorOptions where
  "new_JsonEditorOptions = JsonEditorOptions_constructor uninitialised"

subsection \<open>The declared types\<close>

text \<open>
  Type expressions as the source writes them. \<open>TNamed\<close> is a reference to a declared
  or ambient type by its name (\<open>JsonEditorNodePath\<close>, \<open>JSON\<close>, \<open>HTMLElement\<close>,
  \<open>Event\<close>); \<open>TInterface\<close> is a list of members, each required or optional (\<open>?\<close>);
  \<open>TFunction\<close> lists the parameters by name and gives the return type. \<open>TUndefined\<close>
  is the one expression the source does not write: it is the type of what a callback returns
  when it returns \<open>undefined\<close>, and of the value an unassigned member reads.
\<close>

datatype presence = Required | Optional

datatype ts_type =
    TString
  | TNumber
  | TBoolean
  | TVoid
  | TNull
  | TUndefined
  | TAny
  | TObject
  | TLiteral string
  | TNamed string
  | TArray ts_type
  | TPromise ts_type
  | TUnion "ts_type list"
  | TFunction "(string \<times> ts_type) list" ts_type
  | TInterface "(string \<times> presence \<times> ts_type) list"

text \<open>The exported type aliases and interfaces, in the order of the source.\<close>

definition type_declarations :: "(string \<times> ts_type) list" where
  "type_declarations =
    [(''JsonEditorMode'',
        TUnion [TLiteral ''tree'', TLiteral ''view'', TLiteral ''form'', TLiteral ''text'',
                TLiteral ''code'', TLiteral ''preview'']),
     (''JsonEditorNodePath'', TArray (TUnion [TString, TNumber])),
     (''JsonEditorNode'',
        TInterface [(''field'', Required, TString),
                    (''path'', Required, TNamed ''JsonEditorNodePath''),
                    (''value'', Required, TNamed ''JSON'')]),
     (''JsonEditorNodeNameArgs'',
        TInterface [(''path'', Required, TNamed ''JsonEditorNodePath''),
                    (''size'', Required, TNumber),
                    (''type'', Required, TUnion [TLiteral ''object'', TLiteral ''array''])]),
     (''JsonEditorValidationError'',
        TInterface [(''path'', Required, TNamed ''JsonEditorNodePath''),
                    (''message'', Required, TString)]),
     (''JsonEditorSeparatorContextMenuItem'',
        TInterface [(''type'', Required, TLiteral ''separator'')]),
     (''JsonEditorButtonContextMenuItem'',
        TInterface [(''title'', Optional, TString),
                    (''submenuTitle'', Optional, TString),
                    (''className'', Required, TString),
                    (''text'', Required, TString),
                    (''submenu'', Optional, TArray (TNamed ''JsonEditorContextMenuItem'')),
                    (''click'', Optional, TFunction [] TVoid)]),
     (''JsonEditorContextMenuItem'',
        TUnion [TNamed ''JsonEditorSeparatorContextMenuItem'',
                TNamed ''JsonEditorButtonContextMenuItem'']),
     (''JsonEditorContextMenuNode'',
        TInterface [(''type'', Required,
                       TUnion [TLiteral ''single'', TLiteral ''multiple'', TLiteral ''append'']),
                    (''path'', Required, TNamed ''JsonEditorNodePath''),
                    (''paths'', Required, TArray (TNamed ''JsonEditorNodePath''))]),
     (''JsonEditorTextPosition'',
        TInterface [(''row'', Required, TNumber), (''column'', Required, TNumber)]),
     (''JsonEditorSerializableNode'',
        TInterface [(''value'', Required, TNamed ''JSON''),
                    (''path'', Required, TNamed ''JsonEditorNodePath'')]),
     (''JsonEditorQueryOptions'',
        TInterface
          [(''filter'', Optional,
              TInterface [(''field'', Required, TUnion [TString, TLiteral ''@'']),
                          (''relation'', Required,
                             TUnion [TLiteral ''=='', TLiteral ''!='', TLiteral ''<'',
                                     TLiteral ''<='', TLiteral ''>'', TLiteral ''>='']),
                          (''value'', Required, TString)]),
           (''sort'', Optional,
              TInterface [(''field'', Required, TUnion [TString, TLiteral ''@'']),
                          (''direction'', Required,
                             TUnion [TLiteral ''asc'', TLiteral ''desc''])]),
           (''projection'', Optional,
              TInterface [(''fields'', Required, TArray TString)])]),
     (''JsonEditorTreeNode'', TNamed ''JsonEditorNode''),
     (''IError'', TNamed ''JsonEditorValidationError'')]"

text \<open>The members of the class with their declared types, in the order of the source.\<close>

definition JsonEditorOptions_members :: "(string \<times> ts_type) list" where
  "JsonEditorOptions_members =
    [(''ace'', TObject),
     (''ajv'', TObject),
     (''onChange'', TFunction [] TVoid),
     (''onChangeJSON'', TFunction [(''json'', TNamed ''JSON'')] TVoid),
     (''onChangeText'', TFunction [(''jsonString'', TString)] TVoid),
     (''onClassName'', TFunction [(''node'', TNamed ''JsonEditorNode'')] TString),
     (''onEditable'',
        TFunction [(''node'', TNamed ''JsonEditorNode'')]
          (TUnion [TBoolean,
                   TInterface [(''field'', Required, TBoolean),
                               (''value'', Required, TBoolean)]])),
     (''onError'', TFunction [(''error'', TAny)] TVoid),
     (''onModeChange'',
        TFunction [(''newMode'', TNamed ''JsonEditorMode''),
                   (''oldMode'', TNamed ''JsonEditorMode'')] TVoid),
     (''onNodeName'', TFunction [(''args'', TNamed ''JsonEditorNodeNameArgs'')] TString),
     (''onValidate'',
        TFunction [(''json'', TNamed ''JSON'')]
          (TUnion [TArray (TNamed ''JsonEditorValidationError''),
                   TPromise (TArray (TNamed ''JsonEditorValidationError''))])),
     (''onValidationError'',
        TFunction [(''errors'', TArray (TNamed ''JsonEditorValidationError''))] TVoid),
     (''onCreateMenu'',
        TFunction [(''items'', TArray (TNamed ''JsonEditorContextMenuItem'')),
                   (''node'', TNamed ''JsonEditorContextMenuNode'')] TVoid),
     (''escapeUnicode'', TBoolean),
     (''sortObjectKeys'', TBoolean),
     (''history'', TBoolean),
     (''mode'', TNamed ''JsonEditorMode''),
     (''modes'', TArray (TNamed ''JsonEditorMode'')),
     (''name'', TString),
     (''schema'', TObject),
     (''schemaRefs'', TObject),
     (''search'', TBoolean),
     (''indentation'', TNumber),
     (''theme'', TNumber),
     (''templates'', TObject),
     (''autocomplete'', TObject),
     (''mainMenuBar'', TBoolean),
     (''navigationBar'', TBoolean),
     (''statusBar'', TBoolean),
     (''onTextSelectionChange'',
        TFunction [(''start'', TNamed ''JsonEditorTextPosition''),
                   (''end'', TNamed ''JsonEditorTextPosition''),
                   (''text'', TString)] TVoid),
     (''onSelectionChange'',
        TFunction [(''start'', TNamed ''JsonEditorSerializableNode''),
                   (''end'', TNamed ''JsonEditorSerializableNode'')] TVoid),
     (''onEvent'',
        TFunction [(''node'', TNamed ''JsonEditorNode''), (''event'', TNamed ''Event'')] TVoid),
     (''colorPicker'', TBoolean),
     (''onColorPicker'',
        TFunction [(''parent'', TNamed ''HTMLElement''),
                   (''color'', TAny),
                   (''onChange'', TFunction [(''value'', TAny)] TVoid)] TVoid),
     (''timestampTag'',
        TUnion [TBoolean, TFunction [(''args'', TNamed ''JsonEditorNode'')] TBoolean]),
     (''timestampFormat'',
        TFunction [(''args'', TNamed ''JsonEditorNode'')] (TUnion [TString, TNull])),
     (''language'', TString),
     (''languages'', TObject),
     (''modalAnchor'', TNamed ''HTMLElement''),
     (''popupAnchor'', TNamed ''HTMLElement''),
     (''enableSort'', TBoolean),
     (''enableTransform'', TBoolean),
     (''maxVisibleChilds'', TNumber),
     (''createQuery'',
        TFunction [(''json'', TNamed ''JSON''),
                   (''queryOptions'', TNamed ''JsonEditorQueryOptions'')] TString),
     (''executeQuery'',
        TFunction [(''json'', TNamed ''JSON''), (''query'', TString)] (TNamed ''JSON'')),
     (''queryDescription'', TString),
     (''expandAll'', TBoolean)]"

text \<open>Looking a declaration or a member up by its name.\<close>

definition declared_type :: "string \<Rightarrow> ts_type option" where
  "declared_type n = map_of type_declarations n"

definition member_type :: "string \<Rightarrow> ts_type option" where
  "member_type n = map_of JsonEditorOptions_members n"

text \<open>
  The alternatives a type expression lists: the members of a union, or the type itself
  when it is not a union.
\<close>

definition alternatives :: "ts_type \<Rightarrow> ts_type list" where
  "alternatives t = (case t of TUnion ts \<Rightarrow> ts | _ \<Rightarrow> [t])"

text \<open>
  The parameter types and the declared return type of a member that is a function
  (nothing for a member that is not one).
\<close>

definition callback_parameters :: "string \<Rightarrow> ts_type list option" where
  "callback_parameters n =
     (case member_type n of Some (TFunction ps r) \<Rightarrow> Some (map snd ps) | _ \<Rightarrow> None)"

definition callback_return :: "string \<Rightarrow> ts_type option" where
  "callback_return n =
     (case member_type n of Some (TFunction ps r) \<Rightarrow> Some r | _ \<Rightarrow> None)"

subsection \<open>Which results a declared return type accepts\<close>

text \<open>
  Whether a callback may return a value of type \<open>a\<close> where the member declares the return
  type \<open>d\<close> is TypeScript's assignability of \<open>a\<close> to \<open>d\<close>, and it depends on the compiler
  option \<open>strictNullChecks\<close>. The source fixes no compiler option, so the option is a
  parameter. The rules below are the part of assignability that the return types of this
  file need; the answer is \<open>Some True\<close> (assignable), \<open>Some False\<close> (not assignable) or
  \<open>None\<close> (the rules below do not decide it):
  \<^item> every type is assignable to itself and to \<open>any\<close>, and \<open>any\<close> is assignable to every type;
  \<^item> without \<open>strictNullChecks\<close>, \<open>null\<close> and \<open>undefined\<close> are assignable to every type;
  \<^item> with \<open>strictNullChecks\<close>, \<open>undefined\<close> is assignable to \<open>void\<close> and \<open>null\<close> is not, and
    neither is assignable to the other, to \<open>string\<close>, \<open>number\<close>, \<open>boolean\<close>, \<open>object\<close>, a
    literal type, an array, a Promise, a function type or an interface;
  \<^item> a type is assignable to a union when it is assignable to one of its members; \<open>null\<close>
    or \<open>undefined\<close> is not assignable to a union when it is assignable to none of them;
  \<^item> a declared name stands for its declaration (followed at most as many times as the
    argument \<open>k\<close> allows); a name the file does not declare (\<open>JSON\<close>, \<open>HTMLElement\<close>,
    \<open>Event\<close>) is not decided.
\<close>

definition accepted_outright :: "bool \<Rightarrow> ts_type \<Rightarrow> ts_type \<Rightarrow> bool" where
  "accepted_outright strictNullChecks a d \<longleftrightarrow>
     a = d \<or> a = TAny \<or> ((a = TNull \<or> a = TUndefined) \<and> \<not> strictNullChecks)"

definition any_accepts :: "bool option list \<Rightarrow> bool option" where
  "any_accepts rs =
     (if Some True \<in> set rs then Some True
      else if set rs = {Some False} then Some False
      else None)"

fun assignable_upto :: "nat \<Rightarrow> bool \<Rightarrow> ts_type \<Rightarrow> ts_type \<Rightarrow> bool option" where
  "assignable_upto k s a TAny = Some True"
| "assignable_upto k s a (TUnion ds) =
     (if ds = [] then None
      else if accepted_outright s a (TUnion ds) then Some True
      else any_accepts (map (\<lambda>d. assignable_upto k s a d) ds))"
| "assignable_upto 0 s a (TNamed n) =
     (if accepted_outright s a (TNamed n) then Some True else None)"
| "assignable_upto (Suc k) s a (TNamed n) =
     (if accepted_outright s a (TNamed n) then Some True
      else case declared_type n of None \<Rightarrow> None | Some d \<Rightarrow> assignable_upto k s a d)"
| "assignable_upto k s a TVoid =
     (if accepted_outright s a TVoid \<or> a = TUndefined then Some True
      else if a = TNull then Some False
      else None)"
| "assignable_upto k s a d =
     (if accepted_outright s a d then Some True
      else if a = TNull \<or> a = TUndefined then Some False
      else None)"

text \<open>
  A chain of declared names cannot be longer than the list of declarations, so that many
  steps are allowed.
\<close>

definition assignable :: "bool \<Rightarrow> ts_type \<Rightarrow> ts_type \<Rightarrow> bool option" where
  "assignable strictNullChecks a d =
     assignable_upto (length type_declarations) strictNullChecks a d"

text \<open>
  A callback whose return type is \<open>a\<close>, offered for the member \<open>n\<close>. Where the member
  declares the return type \<open>void\<close>, TypeScript accepts a callback with any return type;
  otherwise the callback's return type must be assignable to the declared one.
\<close>

definition return_accepts :: "bool \<Rightarrow> string \<Rightarrow> ts_type \<Rightarrow> bool option" where
  "return_accepts strictNullChecks n a =
     (case callback_return n of
        None \<Rightarrow> None
      | Some d \<Rightarrow> if d = TVoid then Some True else assignable strictNullChecks a d)"

subsection \<open>The defaulting engine\<close>

text \<open>
  Modelled from the spec: \<open>resolve\<close>, the defaulting engine of section 4.2. The source has
  no function that takes a partial configuration (its constructor has no parameter), so
  \<open>resolve\<close> follows the spec's words: for each entry of the field registry with a default,
  if the key is absent or undefined in the partial configuration, set it to the default;
  otherwise preserve the caller's value unchanged. The defaults are not retyped from the
  spec's table: they are the fields of the object the source's constructor builds, so an
  entry has a default exactly when the constructor assigns it.
\<close>

definition default_if_undefined :: "'a option \<Rightarrow> 'a option \<Rightarrow> 'a option" where
  "default_if_undefined d v = (case v of None \<Rightarrow> d | Some x \<Rightarrow> Some x)"

definition resolve :: "JsonEditorOptions \<Rightarrow> JsonEditorOptions" where
  "resolve p =
     (let defaults = new_JsonEditorOptions in
        \<lparr> ace = default_if_undefined (ace defaults) (ace p),
          ajv = default_if_undefined (ajv defaults) (ajv p),
          onChange = default_if_undefined (onChange defaults) (onChange p),
          onChangeJSON = default_if_undefined (onChangeJSON defaults) (onChangeJSON p),
          onChangeText = default_if_undefined (onChangeText defaults) (onChangeText p),
          onClassName = default_if_undefined (onClassName defaults) (onClassName p),
          onEditable = default_if_undefined (onEditable defaults) (onEditable p),
          onError = default_if_undefined (onError defaults) (onError p),
          onModeChange = default_if_undefined (onModeChange defaults) (onModeChange p),
          onNodeName = default_if_undefined (onNodeName defaults) (onNodeName p),
          onValidate = default_if_undefined (onValidate defaults) (onValidate p),
          onValidationError = default_if_undefined (onValidationError defaults) (onValidationError p),
          onCreateMenu = default_if_undefined (onCreateMenu defaults) (onCreateMenu p),
          escapeUnicode = default_if_undefined (escapeUnicode defaults) (escapeUnicode p),
          sortObjectKeys = default_if_undefined (sortObjectKeys defaults) (sortObjectKeys p),
          history = default_if_undefined (history defaults) (history p),
          mode = default_if_undefined (mode defaults) (mode p),
          modes = default_if_undefined (modes defaults) (modes p),
          name = default_if_undefined (name defaults) (name p),
          schema = default_if_undefined (schema defaults) (schema p),
          schemaRefs = default_if_undefined (schemaRefs defaults) (schemaRefs p),
          search = default_if_undefined (search defaults) (search p),
          indentation = default_if_undefined (indentation defaults) (indentation p),
          theme = default_if_undefined (theme defaults) (theme p),
          templates = default_if_undefined (templates defaults) (templates p),
          autocomplete = default_if_undefined (autocomplete defaults) (autocomplete p),
          mainMenuBar = default_if_undefined (mainMenuBar defaults) (mainMenuBar p),
          navigationBar = default_if_undefined (navigationBar defaults) (navigationBar p),
          statusBar = default_if_undefined (statusBar defaults) (statusBar p),
          onTextSelectionChange = default_if_undefined (onTextSelectionChange defaults) (onTextSelectionChange p),
          onSelectionChange = default_if_undefined (onSelectionChange defaults) (onSelectionChange p),
          onEvent = default_if_undefined (onEvent defaults) (onEvent p),
          colorPicker = default_if_undefined (colorPicker defaults) (colorPicker p),
          onColorPicker = default_if_undefined (onColorPicker defaults) (onColorPicker p),
          timestampTag = default_if_undefined (timestampTag defaults) (timestampTag p),
          timestampFormat = default_if_undefined (timestampFormat defaults) (timestampFormat p),
          language = default_if_undefined (language defaults) (language p),
          languages = default_if_undefined (languages defaults) (languages p),
          modalAnchor = default_if_undefined (modalAnchor defaults) (modalAnchor p),
          popupAnchor = default_if_undefined (popupAnchor defaults) (popupAnchor p),
          enableSort = default_if_undefined (enableSort defaults) (enableSort p),
          enableTransform = default_if_undefined (enableTransform defaults) (enableTransform p),
          maxVisibleChilds = default_if_undefined (maxVisibleChilds defaults) (maxVisibleChilds p),
          createQuery = default_if_undefined (createQuery defaults) (createQuery p),
          executeQuery = default_if_undefined (executeQuery defaults) (executeQuery p),
          queryDescription = default_if_undefined (queryDescription defaults) (queryDescription p),
          expandAll = default_if_undefined (expandAll defaults) (expandAll p) \<rparr>)"

subsection \<open>The mode-applicability table\<close>

text \<open>
  Modelled from the spec: \<open>isApplicable\<close>, the lookup of section 4.3. The source has no
  such function; it keeps the table as the doc comments of the members. The entries below
  are the members whose doc comment says \<open>Only applicable when mode is ...\<close> (or
  \<open>Only applicable for mode ...\<close>), with the modes the comment lists; a member with no
  such sentence is applicable under every mode.
\<close>

definition applicability_table :: "(string \<times> JsonEditorMode list) list" where
  "applicability_table =
    [(''ace'', [ModeCode]),
     (''onClassName'', [ModeTree, ModeForm, ModeView]),
     (''onEditable'', [ModeTree, ModeText, ModeCode]),
     (''history'', [ModeTree, ModeForm, ModePreview]),
     (''name'', [ModeTree, ModeView, ModeForm]),
     (''search'', [ModeTree, ModeView, ModeForm]),
     (''indentation'', [ModeCode, ModeText, ModePreview]),
     (''navigationBar'', [ModeTree, ModeForm, ModeView]),
     (''statusBar'', [ModeCode, ModeText, ModePreview]),
     (''enableSort'', [ModeTree]),
     (''enableTransform'', [ModeTree])]"

definition isApplicable :: "string \<Rightarrow> JsonEditorMode \<Rightarrow> bool" where
  "isApplicable f m =
     (case map_of applicability_table f of None \<Rightarrow> True | Some ms \<Rightarrow> m \<in> set ms)"

subsection \<open>Predicates the properties are stated with\<close>

text \<open>
  Two receivers agree on the thirty-three fields the constructor body does not assign.
\<close>

definition same_unassigned :: "JsonEditorOptions \<Rightarrow> JsonEditorOptions \<Rightarrow> bool" where
  "same_unassigned a b \<longleftrightarrow>
      ace a = ace b \<and> ajv a = ajv b \<and> onChange a = onChange b \<and>
      onChangeJSON a = onChangeJSON b \<and> onChangeText a = onChangeText b \<and>
      onClassName a = onClassName b \<and> onEditable a = onEditable b \<and>
      onError a = onError b \<and> onModeChange a = onModeChange b \<and>
      onNodeName a = onNodeName b \<and> onValidate a = onValidate b \<and>
      onValidationError a = onValidationError b \<and>
      onCreateMenu a = onCreateMenu b \<and> modes a = modes b \<and>
      name a = name b \<and> schema a = schema b \<and> schemaRefs a = schemaRefs b \<and>
      theme a = theme b \<and> templates a = templates b \<and>
      autocomplete a = autocomplete b \<and>
      onTextSelectionChange a = onTextSelectionChange b \<and>
      onSelectionChange a = onSelectionChange b \<and> onEvent a = onEvent b \<and>
      onColorPicker a = onColorPicker b \<and> timestampTag a = timestampTag b \<and>
      timestampFormat a = timestampFormat b \<and> language a = language b \<and>
      languages a = languages b \<and> modalAnchor a = modalAnchor b \<and>
      popupAnchor a = popupAnchor b \<and> createQuery a = createQuery b \<and>
      executeQuery a = executeQuery b \<and> queryDescription a = queryDescription b"


section \<open>Default construction\<close>

text \<open>
  Claim C1. Default-constructing the options object (which is what resolving the empty
  partial configuration comes to) yields exactly the documented defaults: escapeUnicode
  false, sortObjectKeys false, history true, mode tree, search true, indentation 2,
  mainMenuBar, navigationBar, statusBar, colorPicker, enableSort and enableTransform true,
  maxVisibleChilds 100, expandAll false; every other recognized field is undefined.
\<close>

theorem new_JsonEditorOptions_defaults:
  "new_JsonEditorOptions =
     \<lparr> ace = None, ajv = None, onChange = None, onChangeJSON = None, onChangeText = None,
       onClassName = None, onEditable = None, onError = None, onModeChange = None,
       onNodeName = None, onValidate = None, onValidationError = None, onCreateMenu = None,
       escapeUnicode = Some False, sortObjectKeys = Some False, history = Some True,
       mode = Some ModeTree, modes = None, name = None, schema = None, schemaRefs = None,
       search = Some True, indentation = Some 2, theme = None, templates = None,
       autocomplete = None, mainMenuBar = Some True, navigationBar = Some True,
       statusBar = Some True, onTextSelectionChange = None, onSelectionChange = None,
       onEvent = None, colorPicker = Some True, onColorPicker = None, timestampTag = None,
       timestampFormat = None, language = None, languages = None, modalAnchor = None,
       popupAnchor = None, enableSort = Some True, enableTransform = Some True,
       maxVisibleChilds = Some 100, createQuery = None, executeQuery = None,
       queryDescription = None, expandAll = Some False \<rparr>"
  by (simp add: new_JsonEditorOptions_def JsonEditorOptions_constructor_def uninitialised_def)

text \<open>
  Claim C9. Default construction is deterministic. The constructor body assigns constants
  and reads nothing, so what it builds depends on the receiver only through the fields it
  leaves alone: two receivers that agree on those give equal objects, whatever they held in
  the fourteen assigned fields. Every receiver \<open>new\<close> supplies is fresh, so any two
  configurations produced by the constructor agree on every field.
\<close>

theorem constructor_deterministic:
  "same_unassigned a b \<Longrightarrow> JsonEditorOptions_constructor a = JsonEditorOptions_constructor b"
  by (cases a, cases b) (simp add: same_unassigned_def JsonEditorOptions_constructor_def)

theorem constructor_deterministic_witness:
  "same_unassigned uninitialised (uninitialised\<lparr>mode := Some ModeCode, expandAll := Some True\<rparr>)
   \<and> JsonEditorOptions_constructor uninitialised =
       JsonEditorOptions_constructor (uninitialised\<lparr>mode := Some ModeCode, expandAll := Some True\<rparr>)
   \<and> JsonEditorOptions_constructor uninitialised = new_JsonEditorOptions"
proof -
  have h: "same_unassigned uninitialised
             (uninitialised\<lparr>mode := Some ModeCode, expandAll := Some True\<rparr>)"
    by (simp add: same_unassigned_def uninitialised_def)
  from constructor_deterministic [OF h] h show ?thesis
    by (simp add: new_JsonEditorOptions_def)
qed

section \<open>The defaulting engine\<close>

lemma default_if_undefined_simps:
  "default_if_undefined d None = d"
  "default_if_undefined d (Some x) = Some x"
  "default_if_undefined None v = v"
  by (simp_all add: default_if_undefined_def split: option.split)

lemma default_if_undefined_twice:
  "default_if_undefined d (default_if_undefined d v) = default_if_undefined d v"
  by (cases v; cases d) (simp_all add: default_if_undefined_simps)

lemma default_if_undefined_Some:
  "default_if_undefined (Some d) v = Some (case v of None \<Rightarrow> d | Some x \<Rightarrow> x)"
  by (cases v) (simp_all add: default_if_undefined_simps)

text \<open>
  Claim C2. For every partial configuration \<open>P\<close>, \<open>resolve P\<close> is \<open>P\<close> with the fourteen
  default-bearing fields filled in: a field that is undefined in \<open>P\<close> gets its documented
  default, a field that \<open>P\<close> defines keeps the value \<open>P\<close> gives it. Every other field is
  the field of \<open>P\<close>, untouched; an object-typed field (ace, ajv, schema, schemaRefs,
  templates, autocomplete, languages) holds a reference, and the result holds the very
  reference \<open>P\<close> holds: the object is replaced wholesale, never merged.
\<close>

theorem resolve_fills_defaults:
  "resolve P =
     P\<lparr> escapeUnicode := Some (case escapeUnicode P of None \<Rightarrow> False | Some v \<Rightarrow> v),
         sortObjectKeys := Some (case sortObjectKeys P of None \<Rightarrow> False | Some v \<Rightarrow> v),
         history := Some (case history P of None \<Rightarrow> True | Some v \<Rightarrow> v),
         mode := Some (case mode P of None \<Rightarrow> ModeTree | Some v \<Rightarrow> v),
         search := Some (case search P of None \<Rightarrow> True | Some v \<Rightarrow> v),
         indentation := Some (case indentation P of None \<Rightarrow> 2 | Some v \<Rightarrow> v),
         mainMenuBar := Some (case mainMenuBar P of None \<Rightarrow> True | Some v \<Rightarrow> v),
         navigationBar := Some (case navigationBar P of None \<Rightarrow> True | Some v \<Rightarrow> v),
         statusBar := Some (case statusBar P of None \<Rightarrow> True | Some v \<Rightarrow> v),
         colorPicker := Some (case colorPicker P of None \<Rightarrow> True | Some v \<Rightarrow> v),
         enableSort := Some (case enableSort P of None \<Rightarrow> True | Some v \<Rightarrow> v),
         enableTransform := Some (case enableTransform P of None \<Rightarrow> True | Some v \<Rightarrow> v),
         maxVisibleChilds := Some (case maxVisibleChilds P of None \<Rightarrow> 100 | Some v \<Rightarrow> v),
         expandAll := Some (case expandAll P of None \<Rightarrow> False | Some v \<Rightarrow> v) \<rparr>"
  by (cases P)
    (simp add: resolve_def Let_def new_JsonEditorOptions_def JsonEditorOptions_constructor_def
      uninitialised_def default_if_undefined_simps default_if_undefined_Some)

text \<open>
  The scenario of the spec: resolving \<open>{mode: "code", indentation: 4}\<close> yields mode code,
  indentation 4 and every other default.
\<close>

theorem resolve_fills_defaults_witness:
  "resolve (uninitialised\<lparr>mode := Some ModeCode, indentation := Some 4\<rparr>) =
     \<lparr> ace = None, ajv = None, onChange = None, onChangeJSON = None, onChangeText = None,
       onClassName = None, onEditable = None, onError = None, onModeChange = None,
       onNodeName = None, onValidate = None, onValidationError = None, onCreateMenu = None,
       escapeUnicode = Some False, sortObjectKeys = Some False, history = Some True,
       mode = Some ModeCode, modes = None, name = None, schema = None, schemaRefs = None,
       search = Some True, indentation = Some 4, theme = None, templates = None,
       autocomplete = None, mainMenuBar = Some True, navigationBar = Some True,
       statusBar = Some True, onTextSelectionChange = None, onSelectionChange = None,
       onEvent = None, colorPicker = Some True, onColorPicker = None, timestampTag = None,
       timestampFormat = None, language = None, languages = None, modalAnchor = None,
       popupAnchor = None, enableSort = Some True, enableTransform = Some True,
       maxVisibleChilds = Some 100, createQuery = None, executeQuery = None,
       queryDescription = None, expandAll = Some False \<rparr>"
  using resolve_fills_defaults [of "uninitialised\<lparr>mode := Some ModeCode, indentation := Some 4\<rparr>"]
  by (simp add: uninitialised_def)

text \<open>
  Claim C3. \<open>resolve\<close> is idempotent: resolving a resolved configuration changes nothing.
  It is a function of its argument alone: the model has no state for it to read or write.
\<close>

theorem resolve_idempotent: "resolve (resolve P) = resolve P"
  by (simp add: resolve_def Let_def default_if_undefined_twice)

text \<open>
  Resolving the empty partial configuration is default construction: on it the modelled
  \<open>resolve\<close> and the constructor of the source build the same object.
\<close>

lemma resolve_uninitialised: "resolve uninitialised = new_JsonEditorOptions"
  by (simp add: resolve_def Let_def new_JsonEditorOptions_def JsonEditorOptions_constructor_def
      uninitialised_def default_if_undefined_simps)

section \<open>The mode-applicability table\<close>

text \<open>
  Claim C4. \<open>isApplicable\<close> is a boolean function of the field and the mode that encodes
  the table: ace is applicable only under code; search and navigationBar only under tree,
  view or form; indentation and statusBar only under code, text or preview; enableSort and
  enableTransform only under tree. In particular ace is applicable under code and not
  under tree.
\<close>

theorem isApplicable_table:
  "isApplicable ''ace'' m = (m = ModeCode)
   \<and> isApplicable ''search'' m = (m \<in> {ModeTree, ModeView, ModeForm})
   \<and> isApplicable ''navigationBar'' m = (m \<in> {ModeTree, ModeView, ModeForm})
   \<and> isApplicable ''indentation'' m = (m \<in> {ModeCode, ModeText, ModePreview})
   \<and> isApplicable ''statusBar'' m = (m \<in> {ModeCode, ModeText, ModePreview})
   \<and> isApplicable ''enableSort'' m = (m = ModeTree)
   \<and> isApplicable ''enableTransform'' m = (m = ModeTree)
   \<and> isApplicable ''ace'' ModeCode
   \<and> \<not> isApplicable ''ace'' ModeTree"
  by (cases m) (simp_all add: isApplicable_def applicability_table_def)

section \<open>Configuration-shape errors\<close>



section \<open>Callback signatures\<close>

lemma member_type_onValidate:
  "member_type ''onValidate'' =
     Some (TFunction [(''json'', TNamed ''JSON'')]
            (TUnion [TArray (TNamed ''JsonEditorValidationError''),
                     TPromise (TArray (TNamed ''JsonEditorValidationError''))]))"
  by (simp add: member_type_def JsonEditorOptions_members_def)

lemma member_type_onCreateMenu:
  "member_type ''onCreateMenu'' =
     Some (TFunction [(''items'', TArray (TNamed ''JsonEditorContextMenuItem'')),
                      (''node'', TNamed ''JsonEditorContextMenuNode'')] TVoid)"
  by (simp add: member_type_def JsonEditorOptions_members_def)

lemma member_type_onNodeName:
  "member_type ''onNodeName'' =
     Some (TFunction [(''args'', TNamed ''JsonEditorNodeNameArgs'')] TString)"
  by (simp add: member_type_def JsonEditorOptions_members_def)

lemma member_type_timestampFormat:
  "member_type ''timestampFormat'' =
     Some (TFunction [(''args'', TNamed ''JsonEditorNode'')] (TUnion [TString, TNull]))"
  by (simp add: member_type_def JsonEditorOptions_members_def)

lemma declared_type_JsonEditorNodePath:
  "declared_type ''JsonEditorNodePath'' = Some (TArray (TUnion [TString, TNumber]))"
  by (simp add: declared_type_def type_declarations_def)

text \<open>
  Claim C6. The onValidate callback takes the JSON document and returns either an array
  of JsonEditorValidationError or a Promise of such an array; a JsonEditorValidationError
  is a record of a path, which is a JsonEditorNodePath (an array of strings and numbers),
  and a message, which is a string.
\<close>

theorem onValidate_signature:
  "callback_parameters ''onValidate'' = Some [TNamed ''JSON'']
   \<and> map_option alternatives (callback_return ''onValidate'') =
       Some [TArray (TNamed ''JsonEditorValidationError''),
             TPromise (TArray (TNamed ''JsonEditorValidationError''))]
   \<and> declared_type ''JsonEditorValidationError'' =
       Some (TInterface [(''path'', Required, TNamed ''JsonEditorNodePath''),
                         (''message'', Required, TString)])
   \<and> declared_type ''JsonEditorNodePath'' = Some (TArray (TUnion [TString, TNumber]))"
  by (simp add: callback_parameters_def callback_return_def member_type_onValidate
      alternatives_def declared_type_JsonEditorNodePath)
    (simp add: declared_type_def type_declarations_def)

lemma callback_return_onCreateMenu: "callback_return ''onCreateMenu'' = Some TVoid"
  by (simp add: callback_return_def member_type_onCreateMenu)

lemma callback_return_onNodeName: "callback_return ''onNodeName'' = Some TString"
  by (simp add: callback_return_def member_type_onNodeName)

lemma callback_return_timestampFormat:
  "callback_return ''timestampFormat'' = Some (TUnion [TString, TNull])"
  by (simp add: callback_return_def member_type_timestampFormat)

text \<open>
  Without \<open>strictNullChecks\<close> every declared member type accepts \<open>undefined\<close>, which is
  what the members the constructor does not assign read. With \<open>strictNullChecks\<close> on,
  \<open>undefined\<close> is not assignable to a declared type such as \<open>string\<close>, although an
  unassigned member of that type reads \<open>undefined\<close> all the same: the declared types say
  nothing of initialisation.
\<close>

lemma assignable_upto_undefined:
  "d \<noteq> TUnion [] \<Longrightarrow> assignable_upto k False TUndefined d = Some True"
  by (cases d; cases k) (simp_all add: accepted_outright_def)

lemma members_accept_undefined:
  "(n, t) \<in> set JsonEditorOptions_members \<Longrightarrow> assignable False TUndefined t = Some True"
  unfolding assignable_def
  by (rule assignable_upto_undefined) (auto simp add: JsonEditorOptions_members_def)

text \<open>
  Claim C7. The onCreateMenu callback receives the item list and the context node, and it
  may return an item list: its declared return type is void, and a member declared to
  return void accepts a callback that returns an array of context-menu items as well as
  one that returns void, whether \<open>strictNullChecks\<close> is on or off.
\<close>

theorem onCreateMenu_accepts_item_list:
  "callback_parameters ''onCreateMenu'' =
       Some [TArray (TNamed ''JsonEditorContextMenuItem''), TNamed ''JsonEditorContextMenuNode'']
   \<and> callback_return ''onCreateMenu'' = Some TVoid
   \<and> return_accepts strictNullChecks ''onCreateMenu''
         (TArray (TNamed ''JsonEditorContextMenuItem'')) = Some True
   \<and> return_accepts strictNullChecks ''onCreateMenu'' TVoid = Some True"
  by (simp add: callback_parameters_def member_type_onCreateMenu return_accepts_def
      callback_return_onCreateMenu)

text \<open>
  Claim C8 says that the declared return type of onNodeName admits null. The declared
  return type is string, and with \<open>strictNullChecks\<close> on null is not assignable to it.
\<close>

theorem onNodeName_null_counterexample:
  "return_accepts True ''onNodeName'' TNull = Some False"
  by (simp add: return_accepts_def callback_return_onNodeName assignable_def
      accepted_outright_def)

text \<open>
  Claim C8, as amended. The onNodeName callback takes an argument record of a path (a
  JsonEditorNodePath), a size (a number) and a type (object or array). Its declared return
  type is string: it accepts a string under either setting, and it accepts null exactly
  when \<open>strictNullChecks\<close> is off. The return type of timestampFormat, declared as string
  or null, accepts null under either setting.
\<close>

theorem onNodeName_return_type:
  "callback_parameters ''onNodeName'' = Some [TNamed ''JsonEditorNodeNameArgs'']
   \<and> declared_type ''JsonEditorNodeNameArgs'' =
       Some (TInterface [(''path'', Required, TNamed ''JsonEditorNodePath''),
                         (''size'', Required, TNumber),
                         (''type'', Required, TUnion [TLiteral ''object'', TLiteral ''array''])])
   \<and> callback_return ''onNodeName'' = Some TString
   \<and> return_accepts strictNullChecks ''onNodeName'' TString = Some True
   \<and> return_accepts strictNullChecks ''onNodeName'' TNull = Some (\<not> strictNullChecks)
   \<and> return_accepts strictNullChecks ''timestampFormat'' TNull = Some True"
  by (cases strictNullChecks)
    (simp_all add: callback_parameters_def member_type_onNodeName return_accepts_def
      callback_return_onNodeName callback_return_timestampFormat assignable_def
      accepted_outright_def any_accepts_def declared_type_def type_declarations_def)

text \<open>
  Claim C10. The context node handed to onCreateMenu (its second parameter, a
  JsonEditorContextMenuNode) has exactly three members, all required: a type that is
  single, multiple or append; a path that is a JsonEditorNodePath; and paths, an array of
  JsonEditorNodePath. The singular path and the plural paths are both required.
\<close>

theorem JsonEditorContextMenuNode_members:
  "callback_parameters ''onCreateMenu'' =
       Some [TArray (TNamed ''JsonEditorContextMenuItem''), TNamed ''JsonEditorContextMenuNode'']
   \<and> declared_type ''JsonEditorContextMenuNode'' =
       Some (TInterface
              [(''type'', Required,
                  TUnion [TLiteral ''single'', TLiteral ''multiple'', TLiteral ''append'']),
               (''path'', Required, TNamed ''JsonEditorNodePath''),
               (''paths'', Required, TArray (TNamed ''JsonEditorNodePath''))])
   \<and> declared_type ''JsonEditorNodePath'' = Some (TArray (TUnion [TString, TNumber]))"
  by (simp add: callback_parameters_def member_type_onCreateMenu
      declared_type_JsonEditorNodePath)
    (simp add: declared_type_def type_declarations_def)

end
